theory Spec2Isabelle
  imports Complex_Main "HOL-Library.AList"
begin

section \<open>Python primitives used by app.py\<close>

datatype py_error = ZeroDivisionError | OverflowError | ValueError | KeyError | TypeError

text \<open>
  A computation that may raise returns \<open>Inl\<close> of the error or \<open>Inr\<close> of its value;
  \<open>py_bind m f\<close> runs \<open>f\<close> on the value of \<open>m\<close>, or passes on the error that \<open>m\<close> raised.
\<close>

definition py_bind :: "py_error + 'a \<Rightarrow> ('a \<Rightarrow> py_error + 'b) \<Rightarrow> py_error + 'b" where
  "py_bind m f = (case m of Inl e \<Rightarrow> Inl e | Inr x \<Rightarrow> f x)"

subsection \<open>Floats\<close>

text \<open>
  A Python \<open>float\<close> is an IEEE-754 binary64 number: a finite value, an infinity or a
  NaN. A finite value is kept as the real number it denotes; the two zeros are not told
  apart (they are equal in Python, both are falsy, and dividing by either raises).
\<close>

datatype pyfloat = Fin real | PInf | NInf | NaN

text \<open>
  Rounding a real number to the nearest double, ties to the even significand. The
  spacing of the doubles around \<open>x\<close> is \<open>2 ^ (e - 52)\<close> where \<open>2 ^ e \<le> \<bar>x\<bar> < 2 ^ (e + 1)\<close>,
  and \<open>2 ^ -1074\<close> below \<open>2 ^ -1022\<close>, the subnormal range. A result of magnitude
  \<open>2 ^ 1024\<close> or more is an infinity. The exponent is found by trying the bits of
  \<open>e + 1075\<close> from the highest down.
\<close>

definition pow2 :: "int \<Rightarrow> real" where
  "pow2 k = (if 0 \<le> k then 2 ^ nat k else 1 / 2 ^ nat (- k))"

fun lift_exponent :: "real \<Rightarrow> int \<Rightarrow> nat list \<Rightarrow> int" where
  "lift_exponent x lo [] = lo"
| "lift_exponent x lo (b # bs) =
     lift_exponent x (if pow2 (lo + int b) \<le> x then lo + int b else lo) bs"

definition exponent :: "real \<Rightarrow> int" where
  "exponent x =
     lift_exponent x (- 1075) [2048, 1024, 512, 256, 128, 64, 32, 16, 8, 4, 2, 1]"

definition quantum :: "real \<Rightarrow> real" where
  "quantum x =
     (if \<bar>x\<bar> < pow2 (- 1022) then pow2 (- 1074) else pow2 (exponent \<bar>x\<bar> - 52))"

definition round_half_even :: "real \<Rightarrow> int" where
  "round_half_even x =
     (let f = \<lfloor>x\<rfloor>; d = x - of_int f
      in if d < 1 / 2 then f
         else if 1 / 2 < d then f + 1
         else if even f then f else f + 1)"

definition fl :: "real \<Rightarrow> pyfloat" where
  "fl x =
     (if pow2 1024 \<le> \<bar>x\<bar> then (if 0 < x then PInf else NInf)
      else let y = of_int (round_half_even (x / quantum x)) * quantum x
           in if pow2 1024 \<le> \<bar>y\<bar> then (if 0 < x then PInf else NInf) else Fin y)"

text \<open>
  The arithmetic of floats: the exact result rounded by \<open>fl\<close>, and the IEEE rules for
  infinities and NaN. \<open>+\<close>, \<open>-\<close> and \<open>*\<close> never raise. A float literal such as
  \<open>1.55\<close> denotes \<open>fl 1.55\<close>; a small integer operand such as \<open>10\<close> is converted
  exactly.
\<close>

definition fneg :: "pyfloat \<Rightarrow> pyfloat" where
  "fneg a = (case a of Fin x \<Rightarrow> Fin (- x) | PInf \<Rightarrow> NInf | NInf \<Rightarrow> PInf | NaN \<Rightarrow> NaN)"

definition fadd :: "pyfloat \<Rightarrow> pyfloat \<Rightarrow> pyfloat" where
  "fadd a b =
     (case a of
        Fin x \<Rightarrow> (case b of Fin y \<Rightarrow> fl (x + y) | _ \<Rightarrow> b)
      | PInf \<Rightarrow> (case b of NInf \<Rightarrow> NaN | NaN \<Rightarrow> NaN | _ \<Rightarrow> PInf)
      | NInf \<Rightarrow> (case b of PInf \<Rightarrow> NaN | NaN \<Rightarrow> NaN | _ \<Rightarrow> NInf)
      | NaN \<Rightarrow> NaN)"

definition fsub :: "pyfloat \<Rightarrow> pyfloat \<Rightarrow> pyfloat" where
  "fsub a b = fadd a (fneg b)"

text \<open>
  The sign of a float that is not a NaN: \<open>1\<close>, \<open>0\<close> or \<open>-1\<close>. A product or quotient
  with an infinite operand is the infinity of the product of the signs, and a NaN when
  that is \<open>0\<close>.
\<close>

definition fsign :: "pyfloat \<Rightarrow> int" where
  "fsign a =
     (case a of
        Fin x \<Rightarrow> (if 0 < x then 1 else if x < 0 then - 1 else 0)
      | PInf \<Rightarrow> 1
      | NInf \<Rightarrow> - 1
      | NaN \<Rightarrow> 0)"

definition inf_of_sign :: "int \<Rightarrow> pyfloat" where
  "inf_of_sign s = (if s = 0 then NaN else if 0 < s then PInf else NInf)"

definition fmul :: "pyfloat \<Rightarrow> pyfloat \<Rightarrow> pyfloat" where
  "fmul a b =
     (case a of
        Fin x \<Rightarrow>
          (case b of
             Fin y \<Rightarrow> fl (x * y)
           | NaN \<Rightarrow> NaN
           | _ \<Rightarrow> inf_of_sign (fsign a * fsign b))
      | NaN \<Rightarrow> NaN
      | _ \<Rightarrow> (case b of NaN \<Rightarrow> NaN | _ \<Rightarrow> inf_of_sign (fsign a * fsign b)))"

text \<open>
  Division by a divisor that is not zero; \<open>a / b\<close> itself raises \<open>ZeroDivisionError\<close> on
  a zero divisor, whatever the dividend.
\<close>

definition fdiv :: "pyfloat \<Rightarrow> pyfloat \<Rightarrow> pyfloat" where
  "fdiv a b =
     (case b of
        Fin y \<Rightarrow>
          (case a of
             Fin x \<Rightarrow> fl (x / y)
           | NaN \<Rightarrow> NaN
           | _ \<Rightarrow> inf_of_sign (fsign a * fsign b))
      | NaN \<Rightarrow> NaN
      | _ \<Rightarrow> (case a of Fin x \<Rightarrow> Fin 0 | _ \<Rightarrow> NaN))"

definition py_truediv :: "pyfloat \<Rightarrow> pyfloat \<Rightarrow> py_error + pyfloat" where
  "py_truediv a b = (if b = Fin 0 then Inl ZeroDivisionError else Inr (fdiv a b))"

text \<open>
  \<open>x ** 2\<close>. A NaN stays a NaN and both infinities give \<open>inf\<close>; on a finite \<open>x\<close> the
  square is taken as correctly rounded, and a square that overflows raises
  \<open>OverflowError\<close> where one that underflows is \<open>0.0\<close>.
\<close>

definition py_pow_2 :: "pyfloat \<Rightarrow> py_error + pyfloat" where
  "py_pow_2 v =
     (case v of
        Fin x \<Rightarrow> (case fl (x * x) of Fin y \<Rightarrow> Inr (Fin y) | _ \<Rightarrow> Inl OverflowError)
      | NaN \<Rightarrow> Inr NaN
      | _ \<Rightarrow> Inr PInf)"

text \<open>
  An \<open>int\<close> that meets a float in \<open>+\<close>, \<open>-\<close> or \<open>*\<close> is converted to the nearest
  double; one too large for a double raises \<open>OverflowError\<close>.
\<close>

definition int_to_float :: "int \<Rightarrow> py_error + pyfloat" where
  "int_to_float n = (case fl (of_int n) of Fin y \<Rightarrow> Inr (Fin y) | _ \<Rightarrow> Inl OverflowError)"

text \<open>
  \<open>round(x)\<close> returns the nearest \<open>int\<close>, a tie going to the even neighbour, and
  \<open>int(x)\<close> truncates towards zero; both raise \<open>OverflowError\<close> on an infinity and
  \<open>ValueError\<close> on a NaN. \<open>round(x, n)\<close> rounds the exact value of \<open>x\<close> to \<open>n\<close>
  decimals, a tie going to the even last digit, and returns the double nearest to that
  decimal; an infinity or a NaN is returned as it is.
\<close>

definition py_round :: "pyfloat \<Rightarrow> py_error + int" where
  "py_round v =
     (case v of
        Fin x \<Rightarrow> Inr (round_half_even x)
      | NaN \<Rightarrow> Inl ValueError
      | _ \<Rightarrow> Inl OverflowError)"

definition trunc_towards_zero :: "real \<Rightarrow> int" where
  "trunc_towards_zero x = (if 0 \<le> x then \<lfloor>x\<rfloor> else \<lceil>x\<rceil>)"

definition py_int :: "pyfloat \<Rightarrow> py_error + int" where
  "py_int v =
     (case v of
        Fin x \<Rightarrow> Inr (trunc_towards_zero x)
      | NaN \<Rightarrow> Inl ValueError
      | _ \<Rightarrow> Inl OverflowError)"

definition py_round_ndigits :: "pyfloat \<Rightarrow> nat \<Rightarrow> py_error + pyfloat" where
  "py_round_ndigits v n =
     (case v of
        Fin x \<Rightarrow>
          (case fl (of_int (round_half_even (x * 10 ^ n)) / 10 ^ n) of
             Fin y \<Rightarrow> Inr (Fin y)
           | _ \<Rightarrow> Inl OverflowError)
      | _ \<Rightarrow> Inr v)"

subsection \<open>Truthiness, strings, dictionaries\<close>

text \<open>
  Truthiness of the optional columns of a row: \<open>None\<close>, \<open>0\<close>, \<open>0.0\<close> and \<open>""\<close> are
  falsy; an infinity and a NaN are truthy.
\<close>

definition truthy_float :: "pyfloat option \<Rightarrow> bool" where
  "truthy_float v = (case v of None \<Rightarrow> False | Some x \<Rightarrow> x \<noteq> Fin 0)"

definition truthy_int :: "int option \<Rightarrow> bool" where
  "truthy_int v = (case v of None \<Rightarrow> False | Some x \<Rightarrow> x \<noteq> 0)"

definition truthy_str :: "string option \<Rightarrow> bool" where
  "truthy_str v = (case v of None \<Rightarrow> False | Some x \<Rightarrow> x \<noteq> [])"

text \<open>\<open>v or d\<close> on an optional string: the default replaces \<open>None\<close> and \<open>""\<close>.\<close>

definition or_str :: "string option \<Rightarrow> string \<Rightarrow> string" where
  "or_str v d = (case v of None \<Rightarrow> d | Some x \<Rightarrow> if x = [] then d else x)"

text \<open>
  \<open>str.upper\<close> and \<open>str.lower\<close>, on the ASCII letters. A character outside ASCII is left
  as it is; no such character is mapped by Python to one of the letters of \<open>"M"\<close> or
  \<open>"lose"\<close>, the only strings the results are compared with.
\<close>

definition upper_char :: "char \<Rightarrow> char" where
  "upper_char c =
     (let n = (of_char c :: nat) in if 97 \<le> n \<and> n \<le> 122 then char_of (n - 32) else c)"

definition lower_char :: "char \<Rightarrow> char" where
  "lower_char c =
     (let n = (of_char c :: nat) in if 65 \<le> n \<and> n \<le> 90 then char_of (n + 32) else c)"

definition str_upper :: "string \<Rightarrow> string" where
  "str_upper s = map upper_char s"

definition str_lower :: "string \<Rightarrow> string" where
  "str_lower s = map lower_char s"

text \<open>\<open>d.get(k, default)\<close> on a dictionary kept as an association list.\<close>

definition dict_get :: "('k \<times> 'v) list \<Rightarrow> 'k \<Rightarrow> 'v \<Rightarrow> 'v" where
  "dict_get d k dflt = (case map_of d k of None \<Rightarrow> dflt | Some v \<Rightarrow> v)"

section \<open>The data model\<close>

text \<open>
  The columns of \<open>Profile\<close> that the calculations read. Every column is nullable. The
  columns \<open>height_in\<close> and \<open>weight_lb\<close> hold centimetres and kilograms: the profile
  form stores \<open>ft_in_to_cm\<close> and \<open>lbs_to_kg\<close> of what the user typed.
\<close>

record Profile =
  height_in :: "pyfloat option"
  weight_lb :: "pyfloat option"
  age :: "int option"
  sex :: "string option"
  activity :: "string option"
  goal :: "string option"

record Metrics =
  bmi :: "pyfloat option"
  bmr :: "int option"
  tdee :: "int option"
  target_calories :: "int option"

section \<open>Helpers and calculations\<close>

definition ACTIVITY_MULTIPLIERS :: "(string \<times> pyfloat) list" where
  "ACTIVITY_MULTIPLIERS =
     [(''sedentary'', fl 1.2),
      (''lightly_active'', fl 1.375),
      (''moderately_active'', fl 1.55),
      (''very_active'', fl 1.725),
      (''extra_active'', fl 1.9)]"

definition cm_to_m :: "pyfloat \<Rightarrow> py_error + pyfloat" where
  "cm_to_m cm = py_truediv cm (fl 100.0)"

definition kg_to_lbs :: "pyfloat \<Rightarrow> pyfloat" where
  "kg_to_lbs kg = fmul kg (fl 2.20462)"

definition lbs_to_kg :: "pyfloat \<Rightarrow> py_error + pyfloat" where
  "lbs_to_kg lbs = py_truediv lbs (fl 2.20462)"

definition inches_to_cm :: "pyfloat \<Rightarrow> pyfloat" where
  "inches_to_cm inches = fmul inches (fl 2.54)"

definition ft_in_to_cm :: "pyfloat \<Rightarrow> pyfloat \<Rightarrow> pyfloat" where
  "ft_in_to_cm ft inch = inches_to_cm (fadd (fmul ft (Fin 12)) inch)"

text \<open>
  There is no helper from centimetres to inches; the profile view converts back inline,
  \<open>p.height_in / 2.54\<close>.
\<close>

definition cm_to_in :: "pyfloat \<Rightarrow> py_error + pyfloat" where
  "cm_to_in cm = py_truediv cm (fl 2.54)"

definition all_present :: "Profile \<Rightarrow> bool" where
  "all_present p =
     (truthy_float (height_in p) \<and> truthy_float (weight_lb p)
      \<and> truthy_int (age p) \<and> truthy_str (sex p))"

definition calculate_metrics :: "Profile option \<Rightarrow> py_error + Metrics" where
  "calculate_metrics profile =
     (case profile of
        None \<Rightarrow> Inr \<lparr>bmi = None, bmr = None, tdee = None, target_calories = None\<rparr>
      | Some p \<Rightarrow>
          if \<not> all_present p
          then Inr \<lparr>bmi = None, bmr = None, tdee = None, target_calories = None\<rparr>
          else
            let h = the (height_in p);
                w = the (weight_lb p);
                a = the (age p);
                s = str_upper (or_str (sex p) [])
            in py_bind (cm_to_m h) (\<lambda>h_m.
               py_bind (py_pow_2 h_m) (\<lambda>h_m2.
               py_bind (py_truediv w h_m2) (\<lambda>q.
               py_bind (py_round_ndigits q 1) (\<lambda>bmi_v.
               py_bind (int_to_float (5 * a)) (\<lambda>a5.
               let bmr_v = fadd (fsub (fadd (fmul (Fin 10) w) (fmul (fl 6.25) h)) a5)
                             (Fin (if s = ''M'' then 5 else - 161));
                   mult = dict_get ACTIVITY_MULTIPLIERS
                            (or_str (activity p) ''moderately_active'') (fl 1.55);
                   tdee_v = fmul bmr_v mult
               in py_bind
                    (if str_lower (or_str (goal p) ''maintain'') = ''lose''
                     then py_bind (py_round (fsub tdee_v (Fin 500))) (\<lambda>r.
                          py_bind (py_int bmr_v) (\<lambda>t. Inr (max r t)))
                     else py_round tdee_v) (\<lambda>target.
                  py_bind (py_round bmr_v) (\<lambda>bmr_i.
                  py_bind (py_round tdee_v) (\<lambda>tdee_i.
                    Inr \<lparr>bmi = Some bmi_v, bmr = Some bmr_i, tdee = Some tdee_i,
                         target_calories = Some target\<rparr>)))))))))"

section \<open>Exercise recommendations\<close>

text \<open>
  A recommendation is a Python dictionary from strings to strings and numbers. It is kept
  as an association list in insertion order: an assignment to a key that is present
  replaces the value where it stands, an assignment to a new key goes to the end, which
  is what \<open>AList.update\<close> does.
\<close>

datatype pyval = PStr string | PInt int | PFloat pyfloat

type_synonym pydict = "(string \<times> pyval) list"

definition base :: "pydict list" where
  "base =
     [[(''name'', PStr ''Brisk Walking''), (''intensity'', PStr ''Moderate''),
       (''duration_min'', PInt 30), (''type'', PStr ''cardio'')],
      [(''name'', PStr ''Jogging''), (''intensity'', PStr ''Heavy''),
       (''duration_min'', PInt 20), (''type'', PStr ''cardio'')],
      [(''name'', PStr ''Cycling (leisure)''), (''intensity'', PStr ''Low''),
       (''duration_min'', PInt 30), (''type'', PStr ''cardio'')],
      [(''name'', PStr ''Bodyweight Circuit''), (''intensity'', PStr ''Moderate''),
       (''duration_min'', PInt 25), (''type'', PStr ''strength'')],
      [(''name'', PStr ''Swimming (moderate)''), (''intensity'', PStr ''Moderate''),
       (''duration_min'', PInt 25), (''type'', PStr ''cardio'')],
      [(''name'', PStr ''Pilates/core''), (''intensity'', PStr ''Low''),
       (''duration_min'', PInt 30), (''type'', PStr ''mobility'')]]"

text \<open>\<open>d[k]\<close> raises \<open>KeyError\<close> on a missing key.\<close>

definition dict_item :: "pydict \<Rightarrow> string \<Rightarrow> py_error + pyval" where
  "dict_item d k = (case map_of d k of None \<Rightarrow> Inl KeyError | Some v \<Rightarrow> Inr v)"

text \<open>\<open>v + 10\<close>: defined on numbers, \<open>TypeError\<close> on a string.\<close>

definition add_10 :: "pyval \<Rightarrow> py_error + pyval" where
  "add_10 v =
     (case v of
        PInt n \<Rightarrow> Inr (PInt (n + 10))
      | PFloat x \<Rightarrow> Inr (PFloat (fadd x (Fin 10)))
      | PStr _ \<Rightarrow> Inl TypeError)"

definition interval_note :: string where
  "interval_note = ''Fat-loss focus: try intervals.''"

text \<open>
  The note of the appended habit holds an en dash (U+2013) between \<open>2\<close> and \<open>3\<close>,
  written here as the three bytes of its UTF-8 encoding.
\<close>

definition walk_after_meals :: pydict where
  "walk_after_meals =
     [(''name'', PStr ''Walk after meals''), (''met'', PFloat (fl 3.3)),
      (''duration_min'', PInt 10), (''type'', PStr ''habit''),
      (''note'', PStr (''Light post-meal walk 2'' @ [CHR 0xE2, CHR 0x80, CHR 0x93]
                        @ ''3x/day''))]"

definition full_body_strength :: pydict where
  "full_body_strength =
     [(''name'', PStr ''Full-body strength 2x/week''), (''met'', PFloat (fl 5.0)),
      (''duration_min'', PInt 40), (''type'', PStr ''strength'')]"

text \<open>
  The loop of the \<open>lose\<close> branch over the catalog; \<open>out\<close> is the list built so far.
\<close>

fun lose_loop :: "pydict list \<Rightarrow> pydict list \<Rightarrow> py_error + pydict list" where
  "lose_loop [] out = Inr out"
| "lose_loop (x # xs) out =
     (case dict_item x ''type'' of
        Inl e \<Rightarrow> Inl e
      | Inr t \<Rightarrow>
          if t = PStr ''cardio'' \<or> t = PStr ''strength''
          then (case dict_item x ''duration_min'' of
                  Inl e \<Rightarrow> Inl e
                | Inr d \<Rightarrow>
                    (case add_10 d of
                       Inl e \<Rightarrow> Inl e
                     | Inr d' \<Rightarrow>
                         lose_loop xs
                           (out @ [AList.update ''note'' (PStr interval_note)
                                     (AList.update ''duration_min'' d' x)])))
          else lose_loop xs out)"

definition exercise_recommendations :: "Profile option \<Rightarrow> py_error + pydict list" where
  "exercise_recommendations profile =
     (case profile of
        None \<Rightarrow> Inr []
      | Some p \<Rightarrow>
          if str_lower (or_str (goal p) ''maintain'') = ''lose''
          then (case lose_loop base [] of
                  Inl e \<Rightarrow> Inl e
                | Inr out \<Rightarrow> Inr (out @ [walk_after_meals]))
          else Inr (base @ [full_body_strength]))"

section \<open>Definitions used to state the properties\<close>

text \<open>
  The specification's wording of the quantities of \<open>calculate_metrics\<close>, over the
  doubles of the program: the Mifflin-St Jeor formula with the sex given as a flag, and
  the multiplier table with its default, a decimal of the table standing for the double
  nearest to it.
\<close>

definition mifflin_st_jeor_spec :: "pyfloat \<Rightarrow> pyfloat \<Rightarrow> int \<Rightarrow> bool \<Rightarrow> py_error + pyfloat" where
  "mifflin_st_jeor_spec weight_kg height_cm age_years male =
     py_bind (int_to_float (5 * age_years)) (\<lambda>age_5.
       Inr (fadd (fsub (fadd (fmul (Fin 10) weight_kg) (fmul (fl 6.25) height_cm)) age_5)
              (Fin (if male then 5 else - 161))))"

definition activity_multiplier_spec :: "string option \<Rightarrow> real" where
  "activity_multiplier_spec act =
     (if act = Some ''sedentary'' then 1.2
      else if act = Some ''lightly_active'' then 1.375
      else if act = Some ''moderately_active'' then 1.55
      else if act = Some ''very_active'' then 1.725
      else if act = Some ''extra_active'' then 1.9
      else 1.55)"

text \<open>
  The specification's wording of the \<open>lose\<close> branch of the recommendations: which
  entries are kept, and what is done to each.
\<close>

definition cardio_or_strength_spec :: "pydict \<Rightarrow> bool" where
  "cardio_or_strength_spec x =
     (map_of x ''type'' = Some (PStr ''cardio'') \<or> map_of x ''type'' = Some (PStr ''strength''))"

definition ten_minutes_more_spec :: "string \<times> pyval \<Rightarrow> string \<times> pyval" where
  "ten_minutes_more_spec kv =
     (case kv of
        (k, PInt n) \<Rightarrow> if k = ''duration_min'' then (k, PInt (n + 10)) else kv
      | _ \<Rightarrow> kv)"

definition lose_entry_spec :: "pydict \<Rightarrow> pydict" where
  "lose_entry_spec x = map ten_minutes_more_spec x @ [(''note'', PStr interval_note)]"

text \<open>
  A list of bit weights covers every exponent when each weight is at most one more than
  the sum of those after it.
\<close>

fun covered :: "nat list \<Rightarrow> bool" where
  "covered [] = True"
| "covered (b # bs) = (b \<le> 1 + sum_list bs \<and> covered bs)"

text \<open>Concrete profiles.\<close>

definition example_profile :: Profile where
  "example_profile =
     \<lparr>height_in = Some (Fin 170), weight_lb = Some (Fin 70), age = Some 30, sex = Some ''M'',
      activity = Some ''moderately_active'', goal = Some ''maintain''\<rparr>"

definition sedentary_lose_profile :: Profile where
  "sedentary_lose_profile =
     \<lparr>height_in = Some (Fin 170), weight_lb = Some (Fin 70), age = Some 30, sex = Some ''M'',
      activity = Some ''sedentary'', goal = Some ''lose''\<rparr>"

definition zero_weight_profile :: Profile where
  "zero_weight_profile =
     \<lparr>height_in = Some (Fin 170), weight_lb = Some (Fin 0), age = Some 30, sex = Some ''M'',
      activity = Some ''sedentary'', goal = Some ''lose''\<rparr>"

definition couch_potato_profile :: Profile where
  "couch_potato_profile =
     \<lparr>height_in = Some (Fin 192), weight_lb = Some (fl 70.6), age = Some 25, sex = Some ''F'',
      activity = Some ''couch_potato'', goal = None\<rparr>"

definition lightly_active_profile :: Profile where
  "lightly_active_profile =
     \<lparr>height_in = Some (Fin 192), weight_lb = Some (fl 70.6), age = Some 25, sex = Some ''F'',
      activity = Some ''lightly_active'', goal = Some ''Lose''\<rparr>"


definition heavier_profile :: Profile where
  "heavier_profile =
     \<lparr>height_in = Some (Fin 170), weight_lb = Some (fl 70.6), age = Some 30, sex = Some ''m'',
      activity = Some ''very_active'', goal = Some ''maintain''\<rparr>"

text \<open>A height of \<open>2.54e-163\<close> cm, what the profile form stores for \<open>1e-163\<close> inches.\<close>

definition underflow_profile :: Profile where
  "underflow_profile =
     \<lparr>height_in = Some (fl (2.54 / 10 ^ 163)), weight_lb = Some (Fin 70), age = Some 30,
      sex = Some ''M'', activity = Some ''moderately_active'', goal = Some ''maintain''\<rparr>"

section \<open>Evaluation\<close>

lemma py_bind_Inl: "py_bind (Inl e) f = Inl e"
  by (simp add: py_bind_def)

lemma py_bind_Inr: "py_bind (Inr x) f = f x"
  by (simp add: py_bind_def)

lemma py_bind_cong_weak: "m = m' \<Longrightarrow> py_bind m f = py_bind m' f"
  by simp

text \<open>The definitions that evaluate the arithmetic and \<open>calculate_metrics\<close> on numerals.\<close>

lemmas fl_eval = fl_def quantum_def exponent_def pow2_def round_half_even_def Let_def

lemmas op_eval = fadd_def fsub_def fneg_def fmul_def fdiv_def fsign_def inf_of_sign_def
  py_truediv_def py_pow_2_def int_to_float_def py_round_def py_int_def trunc_towards_zero_def
  py_round_ndigits_def py_bind_Inl py_bind_Inr

lemmas cm_eval = calculate_metrics_def all_present_def truthy_float_def truthy_int_def
  truthy_str_def or_str_def str_upper_def upper_char_def str_lower_def lower_char_def
  cm_to_m_def dict_get_def ACTIVITY_MULTIPLIERS_def

section \<open>Facts about rounding to a double\<close>

lemma pow2_powi: "pow2 k = 2 powi k"
  by (simp add: pow2_def power_int_def field_simps)

lemma pow2_pos: "0 < pow2 k"
  by (simp add: pow2_powi)

lemma pow2_add: "pow2 (a + b) = pow2 a * pow2 b"
  by (simp add: pow2_powi power_int_add)

lemma pow2_mono: "a \<le> b \<Longrightarrow> pow2 a \<le> pow2 b"
  by (simp add: pow2_powi power_int_increasing)

lemma pow2_less_cancel: "pow2 a < pow2 b \<Longrightarrow> a < b"
  using pow2_mono [of b a] by (cases "a < b") auto

lemma lift_exponent_bounds:
  assumes "covered bs" "pow2 lo \<le> x" "x < pow2 (lo + 1 + int (sum_list bs))"
  shows "pow2 (lift_exponent x lo bs) \<le> x \<and> x < pow2 (lift_exponent x lo bs + 1)"
  using assms
proof (induction bs arbitrary: lo)
  case Nil
  then show ?case by simp
next
  case (Cons b bs)
  show ?case
  proof (cases "pow2 (lo + int b) \<le> x")
    case True
    have "x < pow2 (lo + int b + 1 + int (sum_list bs))"
      using Cons.prems(3) by (simp add: algebra_simps)
    with Cons.IH [of "lo + int b"] Cons.prems(1) True show ?thesis by simp
  next
    case False
    have "pow2 (lo + int b) \<le> pow2 (lo + 1 + int (sum_list bs))"
      using Cons.prems(1) by (intro pow2_mono) simp
    with False have "x < pow2 (lo + 1 + int (sum_list bs))" by simp
    with Cons.IH [of lo] Cons.prems(1,2) False show ?thesis by simp
  qed
qed

lemma exponent_bounds:
  assumes "pow2 (- 1022) \<le> x" "x < pow2 1024"
  shows "pow2 (exponent x) \<le> x" "x < pow2 (exponent x + 1)"
    "- 1022 \<le> exponent x" "exponent x \<le> 1023"
proof -
  have lo: "pow2 (- 1075) \<le> x"
    using assms(1) pow2_mono [of "- 1075" "- 1022"] by simp
  have hi: "x < pow2 (- 1075 + 1 + int (sum_list [2048, 1024, 512, 256, 128, 64, 32, 16, 8, 4, 2, 1]))"
    using assms(2) pow2_mono [of 1024 3021] by simp
  have *: "pow2 (exponent x) \<le> x \<and> x < pow2 (exponent x + 1)"
    unfolding exponent_def by (rule lift_exponent_bounds [OF _ lo hi]) simp
  then show "pow2 (exponent x) \<le> x" "x < pow2 (exponent x + 1)" by simp_all
  from * assms have "pow2 (exponent x) < pow2 1024" "pow2 (- 1022) < pow2 (exponent x + 1)"
    by simp_all
  then have "exponent x < 1024" "- 1022 < exponent x + 1"
    by (blast dest: pow2_less_cancel)+
  then show "- 1022 \<le> exponent x" "exponent x \<le> 1023" by simp_all
qed

lemma round_half_even_nearest: "\<bar>of_int (round_half_even x) - x\<bar> \<le> 1 / 2"
  unfolding round_half_even_def Let_def by (auto simp: abs_if) linarith+

text \<open>
  In the normal range rounding returns a finite double, with a relative error of at most
  \<open>2 ^ -53\<close>.
\<close>

lemma fl_normal:
  assumes "pow2 (- 1022) \<le> \<bar>x\<bar>" "\<bar>x\<bar> \<le> pow2 1023"
  shows "\<exists>y. fl x = Fin y \<and> \<bar>y - x\<bar> \<le> \<bar>x\<bar> / 2 ^ 53"
proof -
  define e where "e = exponent \<bar>x\<bar>"
  define q where "q = pow2 (e - 52)"
  define y where "y = of_int (round_half_even (x / q)) * q"
  have lt: "\<bar>x\<bar> < pow2 1024"
    using assms(2) pow2_mono [of 1023 1024] by (simp add: pow2_def)
  note eb = exponent_bounds [OF assms(1) lt, folded e_def]
  have qpos: "0 < q" by (simp add: q_def pow2_pos)
  have quantum: "quantum x = q"
    using assms(1) by (simp add: quantum_def q_def e_def)
  have "y - x = (of_int (round_half_even (x / q)) - x / q) * q"
    using qpos by (simp add: y_def field_simps)
  then have "\<bar>y - x\<bar> = \<bar>of_int (round_half_even (x / q)) - x / q\<bar> * q"
    using qpos by (simp add: abs_mult)
  also have "\<dots> \<le> 1 / 2 * q"
    using qpos round_half_even_nearest [of "x / q"] by (intro mult_right_mono) simp_all
  finally have err: "\<bar>y - x\<bar> \<le> q / 2" by simp
  have "pow2 e = pow2 (e - 52 + 52)" by simp
  also have "\<dots> = q * pow2 52" by (simp only: pow2_add q_def)
  finally have q52: "q = pow2 e / 2 ^ 52" by (simp add: pow2_def)
  have "q / 2 \<le> \<bar>x\<bar> / 2 ^ 53"
    using eb(1) by (simp add: q52 divide_right_mono)
  with err have bound: "\<bar>y - x\<bar> \<le> \<bar>x\<bar> / 2 ^ 53" by simp
  have "\<bar>y\<bar> \<le> \<bar>x\<bar> + \<bar>x\<bar> / 2 ^ 53" using bound by linarith
  also have "\<dots> \<le> pow2 1023 + pow2 1023 / 2 ^ 53"
    using assms(2) by (intro add_mono divide_right_mono) simp_all
  also have "\<dots> < pow2 1024" by (simp add: pow2_def)
  finally have "\<not> pow2 1024 \<le> \<bar>y\<bar>" by simp
  with lt have "fl x = Fin y"
    by (simp add: fl_def quantum y_def Let_def)
  with bound show ?thesis by blast
qed

lemma pow2_m1020: "pow2 (- 1020) = 4 * pow2 (- 1022)"
  by (simp add: pow2_def)

lemma pow2_1023: "pow2 1023 = 4 * pow2 1021"
  by (simp add: pow2_def)

lemma round_trip_tolerance: "0 \<le> (v::real) \<Longrightarrow> 3 * v / 2 ^ 53 \<le> v / 10 ^ 6"
  by (simp add: field_simps)

text \<open>
  Dividing by a constant between 2 and 4 and multiplying back, or the other way round,
  each step rounded, stays within three relative errors of the start.
\<close>

lemma div_mul_round_trip:
  assumes k: "2 \<le> k" "k \<le> 4" and v: "pow2 (- 1020) \<le> v" "v \<le> pow2 1021"
  shows "\<exists>a b. fl (v / k) = Fin a \<and> fl (a * k) = Fin b \<and> \<bar>b - v\<bar> \<le> v / 10 ^ 6"
proof -
  have p: "0 < pow2 (- 1022)" "0 < pow2 1021" by (rule pow2_pos)+
  have vpos: "0 < v" using v(1) p pow2_m1020 by linarith
  define x1 where "x1 = v / k"
  have x1k: "x1 * k = v" using k by (simp add: x1_def)
  have x1_lo: "v / 4 \<le> x1" unfolding x1_def using k vpos by (intro divide_left_mono) simp_all
  have x1_hi: "x1 \<le> v / 2" unfolding x1_def using k vpos by (intro divide_left_mono) simp_all
  have x1pos: "0 < x1" using x1_lo vpos by linarith
  have "pow2 (- 1022) \<le> \<bar>x1\<bar>" "\<bar>x1\<bar> \<le> pow2 1023"
    using x1_lo x1_hi x1pos v pow2_m1020 pow2_1023 p by linarith+
  from fl_normal [OF this] obtain a where a: "fl x1 = Fin a" "\<bar>a - x1\<bar> \<le> \<bar>x1\<bar> / 2 ^ 53"
    by blast
  define x2 where "x2 = a * k"
  have "x2 - v = (a - x1) * k" by (simp add: x2_def x1k left_diff_distrib)
  then have "\<bar>x2 - v\<bar> = \<bar>a - x1\<bar> * k" using k by (simp add: abs_mult)
  also have "\<dots> \<le> \<bar>x1\<bar> / 2 ^ 53 * k" using a(2) k by (intro mult_right_mono) simp_all
  also have "\<dots> = v / 2 ^ 53" using x1pos x1k by (simp add: field_simps)
  finally have x2v: "\<bar>x2 - v\<bar> \<le> v / 2 ^ 53" .
  have small: "v / 2 ^ 53 \<le> v / 2" using vpos by (simp add: field_simps)
  have x2_lo: "v / 2 \<le> x2" and x2_hi: "x2 \<le> 2 * v" using x2v small vpos by linarith+
  have "pow2 (- 1022) \<le> \<bar>x2\<bar>" "\<bar>x2\<bar> \<le> pow2 1023"
    using x2_lo x2_hi vpos v pow2_m1020 pow2_1023 p by linarith+
  from fl_normal [OF this] obtain b where b: "fl x2 = Fin b" "\<bar>b - x2\<bar> \<le> \<bar>x2\<bar> / 2 ^ 53"
    by blast
  have "\<bar>x2\<bar> / 2 ^ 53 \<le> 2 * v / 2 ^ 53"
    using x2_lo x2_hi vpos by (intro divide_right_mono) simp_all
  with b(2) have "\<bar>b - x2\<bar> \<le> 2 * v / 2 ^ 53" by linarith
  moreover have "\<bar>b - v\<bar> \<le> \<bar>b - x2\<bar> + \<bar>x2 - v\<bar>" by linarith
  ultimately have "\<bar>b - v\<bar> \<le> 3 * v / 2 ^ 53" using x2v by linarith
  with round_trip_tolerance [of v] vpos have "\<bar>b - v\<bar> \<le> v / 10 ^ 6" by linarith
  with a(1) b(1) show ?thesis unfolding x1_def x2_def by blast
qed

lemma mul_div_round_trip:
  assumes k: "2 \<le> k" "k \<le> 4" and v: "pow2 (- 1020) \<le> v" "v \<le> pow2 1021"
  shows "\<exists>c d. fl (v * k) = Fin c \<and> c \<noteq> 0 \<and> fl (c / k) = Fin d \<and> \<bar>d - v\<bar> \<le> v / 10 ^ 6"
proof -
  have p: "0 < pow2 (- 1022)" "0 < pow2 1021" by (rule pow2_pos)+
  have vpos: "0 < v" using v(1) p pow2_m1020 by linarith
  define x3 where "x3 = v * k"
  have x3_lo: "2 * v \<le> x3" unfolding x3_def using k vpos by simp
  have x3_hi: "x3 \<le> 4 * v" unfolding x3_def using k vpos by simp
  have x3pos: "0 < x3" using x3_lo vpos by linarith
  have "pow2 (- 1022) \<le> \<bar>x3\<bar>" "\<bar>x3\<bar> \<le> pow2 1023"
    using x3_lo x3_hi x3pos v pow2_m1020 pow2_1023 p by linarith+
  from fl_normal [OF this] obtain c where c: "fl x3 = Fin c" "\<bar>c - x3\<bar> \<le> \<bar>x3\<bar> / 2 ^ 53"
    by blast
  have "\<bar>x3\<bar> / 2 ^ 53 \<le> x3 / 2" using x3pos by (simp add: field_simps)
  with c(2) x3pos have cpos: "0 < c" by linarith
  define x4 where "x4 = c / k"
  have "x4 - v = (c - x3) / k" using k by (simp add: x4_def x3_def field_simps)
  then have "\<bar>x4 - v\<bar> = \<bar>c - x3\<bar> / k" using k by simp
  also have "\<dots> \<le> \<bar>x3\<bar> / 2 ^ 53 / k" using c(2) k by (intro divide_right_mono) simp_all
  also have "\<dots> = v / 2 ^ 53" using x3pos k by (simp add: x3_def field_simps)
  finally have x4v: "\<bar>x4 - v\<bar> \<le> v / 2 ^ 53" .
  have small: "v / 2 ^ 53 \<le> v / 2" using vpos by (simp add: field_simps)
  have x4_lo: "v / 2 \<le> x4" and x4_hi: "x4 \<le> 2 * v" using x4v small vpos by linarith+
  have "pow2 (- 1022) \<le> \<bar>x4\<bar>" "\<bar>x4\<bar> \<le> pow2 1023"
    using x4_lo x4_hi vpos v pow2_m1020 pow2_1023 p by linarith+
  from fl_normal [OF this] obtain d where d: "fl x4 = Fin d" "\<bar>d - x4\<bar> \<le> \<bar>x4\<bar> / 2 ^ 53"
    by blast
  have "\<bar>x4\<bar> / 2 ^ 53 \<le> 2 * v / 2 ^ 53"
    using x4_lo x4_hi vpos by (intro divide_right_mono) simp_all
  with d(2) have "\<bar>d - x4\<bar> \<le> 2 * v / 2 ^ 53" by linarith
  moreover have "\<bar>d - v\<bar> \<le> \<bar>d - x4\<bar> + \<bar>x4 - v\<bar>" by linarith
  ultimately have "\<bar>d - v\<bar> \<le> 3 * v / 2 ^ 53" using x4v by linarith
  with round_trip_tolerance [of v] vpos have "\<bar>d - v\<bar> \<le> v / 10 ^ 6" by linarith
  with c(1) d(1) cpos show ?thesis unfolding x3_def x4_def by blast
qed

lemma fl_2_20462: "fl 2.20462 = Fin (4964362905246771 / 2251799813685248)"
  by (simp add: fl_eval)

lemma fl_2_54: "fl 2.54 = Fin (2859785763380265 / 1125899906842624)"
  by (simp add: fl_eval)

lemma fl_70_6: "fl 70.6 = Fin (2484016669471539 / 35184372088832)"
  by (simp add: fl_eval)

section \<open>Facts about the primitives and the two functions\<close>

lemma py_bind_eq_Inr: "py_bind m f = Inr y \<longleftrightarrow> (\<exists>x. m = Inr x \<and> f x = Inr y)"
  by (cases m) (simp_all add: py_bind_def)

lemma py_round_eq_Inr: "py_round v = Inr n \<longleftrightarrow> (\<exists>x. v = Fin x \<and> n = round_half_even x)"
  by (cases v) (auto simp: py_round_def)

lemma py_int_eq_Inr: "py_int v = Inr n \<longleftrightarrow> (\<exists>x. v = Fin x \<and> n = trunc_towards_zero x)"
  by (cases v) (auto simp: py_int_def)

lemma all_present_iff:
  "all_present p \<longleftrightarrow>
     (\<exists>h w a s. height_in p = Some h \<and> weight_lb p = Some w \<and> age p = Some a \<and> sex p = Some s
        \<and> h \<noteq> Fin 0 \<and> w \<noteq> Fin 0 \<and> a \<noteq> 0 \<and> s \<noteq> [])"
  by (auto simp: all_present_def truthy_float_def truthy_int_def truthy_str_def
           split: option.splits)

lemma not_all_present_unknown:
  "\<not> all_present p \<Longrightarrow>
     calculate_metrics (Some p) =
       Inr \<lparr>bmi = None, bmr = None, tdee = None, target_calories = None\<rparr>"
  by (simp add: calculate_metrics_def)

lemma activity_mult_spec:
  "dict_get ACTIVITY_MULTIPLIERS (or_str act ''moderately_active'') (fl 1.55)
     = fl (activity_multiplier_spec act)"
  by (cases act) (auto simp: activity_multiplier_spec_def dict_get_def
        ACTIVITY_MULTIPLIERS_def or_str_def)

lemma of_char_upper_char:
  "(of_char (upper_char c) :: nat) =
     (if 97 \<le> (of_char c :: nat) \<and> (of_char c :: nat) \<le> 122 then of_char c - 32 else of_char c)"
  by (auto simp: upper_char_def Let_def)

lemma upper_char_M: "upper_char c = CHR ''M'' \<longleftrightarrow> c = CHR ''M'' \<or> c = CHR ''m''"
proof -
  have "upper_char c = CHR ''M'' \<longleftrightarrow> (of_char (upper_char c) :: nat) = of_char CHR ''M''"
    by (simp only: of_char_eq_iff)
  also have "\<dots> \<longleftrightarrow> (of_char c :: nat) = 77 \<or> (of_char c :: nat) = 109"
    by (auto simp: of_char_upper_char)
  also have "\<dots> \<longleftrightarrow> (of_char c :: nat) = of_char CHR ''M'' \<or> (of_char c :: nat) = of_char CHR ''m''"
    by simp
  also have "\<dots> \<longleftrightarrow> c = CHR ''M'' \<or> c = CHR ''m''"
    by (simp only: of_char_eq_iff)
  finally show ?thesis .
qed

lemma str_upper_M: "str_upper s = ''M'' \<longleftrightarrow> s = ''M'' \<or> s = ''m''"
  by (cases s) (auto simp: str_upper_def upper_char_M)

text \<open>The goals that \<open>lower()\<close> turns into \<open>lose\<close>: the sixteen spellings of the word.\<close>

lemma of_char_lower_char:
  "(of_char (lower_char c) :: nat) =
     (if 65 \<le> (of_char c :: nat) \<and> (of_char c :: nat) \<le> 90 then of_char c + 32 else of_char c)"
  by (auto simp: lower_char_def Let_def)

lemma lower_char_eq_iff:
  assumes "97 \<le> (of_char t :: nat)" "(of_char t :: nat) \<le> 122"
    and "(of_char u :: nat) + 32 = of_char t"
  shows "lower_char c = t \<longleftrightarrow> c = t \<or> c = u"
proof -
  have "lower_char c = t \<longleftrightarrow> (of_char (lower_char c) :: nat) = of_char t"
    by (simp only: of_char_eq_iff)
  also have "\<dots> \<longleftrightarrow> (of_char c :: nat) = of_char t \<or> (of_char c :: nat) = of_char u"
    using assms by (auto simp: of_char_lower_char simp del: of_char_eq_iff)
  also have "\<dots> \<longleftrightarrow> c = t \<or> c = u"
    by (simp only: of_char_eq_iff)
  finally show ?thesis .
qed

lemma str_lower_lose:
  "str_lower g = ''lose'' \<longleftrightarrow>
     (\<exists>c1 c2 c3 c4. g = [c1, c2, c3, c4]
        \<and> (c1 = CHR ''l'' \<or> c1 = CHR ''L'') \<and> (c2 = CHR ''o'' \<or> c2 = CHR ''O'')
        \<and> (c3 = CHR ''s'' \<or> c3 = CHR ''S'') \<and> (c4 = CHR ''e'' \<or> c4 = CHR ''E''))"
proof -
  have l: "lower_char c = CHR ''l'' \<longleftrightarrow> c = CHR ''l'' \<or> c = CHR ''L''" for c
    using lower_char_eq_iff [of "CHR ''l''" "CHR ''L''" c] by simp
  have o: "lower_char c = CHR ''o'' \<longleftrightarrow> c = CHR ''o'' \<or> c = CHR ''O''" for c
    using lower_char_eq_iff [of "CHR ''o''" "CHR ''O''" c] by simp
  have s: "lower_char c = CHR ''s'' \<longleftrightarrow> c = CHR ''s'' \<or> c = CHR ''S''" for c
    using lower_char_eq_iff [of "CHR ''s''" "CHR ''S''" c] by simp
  have e: "lower_char c = CHR ''e'' \<longleftrightarrow> c = CHR ''e'' \<or> c = CHR ''E''" for c
    using lower_char_eq_iff [of "CHR ''e''" "CHR ''E''" c] by simp
  have "str_lower g = ''lose'' \<longleftrightarrow>
     (\<exists>c1 c2 c3 c4. g = [c1, c2, c3, c4] \<and> lower_char c1 = CHR ''l'' \<and> lower_char c2 = CHR ''o''
         \<and> lower_char c3 = CHR ''s'' \<and> lower_char c4 = CHR ''e'')"
    unfolding str_lower_def by (auto simp: map_eq_Cons_conv)
  then show ?thesis by (simp only: l o s e)
qed

lemma char_of_108: "char_of (108::nat) = CHR ''l''"
proof -
  have "of_char (char_of (108::nat)) = (of_char CHR ''l'' :: nat)" by simp
  then show ?thesis by (simp only: of_char_eq_iff)
qed

lemma char_of_77: "char_of (77::nat) = CHR ''M''"
proof -
  have "of_char (char_of (77::nat)) = (of_char CHR ''M'' :: nat)" by simp
  then show ?thesis by (simp only: of_char_eq_iff)
qed

text \<open>What a returned result of a complete profile is made of.\<close>

lemma calculate_metrics_returns:
  assumes ret: "calculate_metrics (Some p) = Inr m"
    and "height_in p = Some h" "weight_lb p = Some w" "age p = Some a" "sex p = Some s"
    and "h \<noteq> Fin 0" "w \<noteq> Fin 0" "a \<noteq> 0" "s \<noteq> []"
  shows "\<exists>h_m h_m2 q b B T target.
           cm_to_m h = Inr h_m \<and> py_pow_2 h_m = Inr h_m2 \<and> py_truediv w h_m2 = Inr q
           \<and> py_round_ndigits q 1 = Inr b
           \<and> mifflin_st_jeor_spec w h a (s = ''M'' \<or> s = ''m'') = Inr (Fin B)
           \<and> fmul (Fin B) (fl (activity_multiplier_spec (activity p))) = Fin T
           \<and> (if str_lower (or_str (goal p) ''maintain'') = ''lose''
               then \<exists>D. fsub (Fin T) (Fin 500) = Fin D
                      \<and> target = max (round_half_even D) (trunc_towards_zero B)
               else target = round_half_even T)
           \<and> m = \<lparr>bmi = Some b, bmr = Some (round_half_even B),
                   tdee = Some (round_half_even T), target_calories = Some target\<rparr>"
proof -
  have present: "all_present p"
    using assms by (simp add: all_present_def truthy_float_def truthy_int_def truthy_str_def)
  have s_eq: "or_str (Some s) [] = s"
    using assms by (simp add: or_str_def)
  from ret present assms(2-5) show ?thesis
    apply (simp only: calculate_metrics_def option.case simp_thms if_False Let_def option.sel
        s_eq activity_mult_spec str_upper_M mifflin_st_jeor_spec_def py_bind_eq_Inr
        py_round_eq_Inr py_int_eq_Inr)
    apply (cases "str_lower (or_str (goal p) ''maintain'') = ''lose''")
     apply (simp_all only: simp_thms if_True if_False py_bind_eq_Inr py_round_eq_Inr
        py_int_eq_Inr sum.inject)
     apply (elim exE conjE; simp)+
    done
qed


lemma lose_loop_base:
  "lose_loop base [] = Inr (map lose_entry_spec (filter cardio_or_strength_spec base))"
  by (simp add: base_def dict_item_def add_10_def lose_entry_spec_def ten_minutes_more_spec_def
        cardio_or_strength_spec_def)

section \<open>The two functions at concrete profiles\<close>

lemma eval_example_profile:
  "calculate_metrics (Some example_profile) =
     Inr \<lparr>bmi = Some (fl 24.2), bmr = Some 1618, tdee = Some 2507, target_calories = Some 2507\<rparr>"
  by (simp add: example_profile_def cm_eval op_eval fl_eval cong: py_bind_cong_weak)

lemma eval_sedentary_lose_profile:
  "calculate_metrics (Some sedentary_lose_profile) =
     Inr \<lparr>bmi = Some (fl 24.2), bmr = Some 1618, tdee = Some 1941, target_calories = Some 1617\<rparr>"
  by (simp add: sedentary_lose_profile_def cm_eval op_eval fl_eval cong: py_bind_cong_weak)

lemma eval_couch_potato_profile:
  "calculate_metrics (Some couch_potato_profile) =
     Inr \<lparr>bmi = Some (fl 19.2), bmr = Some 1620, tdee = Some 2511, target_calories = Some 2511\<rparr>"
  by (simp add: couch_potato_profile_def cm_eval op_eval fl_eval cong: py_bind_cong_weak)

lemma eval_lightly_active_profile:
  "calculate_metrics (Some lightly_active_profile) =
     Inr \<lparr>bmi = Some (fl 19.2), bmr = Some 1620, tdee = Some 2228, target_calories = Some 1728\<rparr>"
  by (simp add: lightly_active_profile_def cm_eval op_eval fl_eval char_of_108
        cong: py_bind_cong_weak)


lemma eval_heavier_profile:
  "calculate_metrics (Some heavier_profile) =
     Inr \<lparr>bmi = Some (fl 24.4), bmr = Some 1624, tdee = Some 2801, target_calories = Some 2801\<rparr>"
  by (simp add: heavier_profile_def cm_eval op_eval fl_eval char_of_77 cong: py_bind_cong_weak)

lemma eval_underflow_profile:
  "calculate_metrics (Some underflow_profile) = Inl ZeroDivisionError"
  by (simp add: underflow_profile_def cm_eval op_eval fl_eval cong: py_bind_cong_weak)

text \<open>
  Two of the values above as the profile form stores them: 0 feet and \<open>1e-163\<close> inches
  give the height of \<open>underflow_profile\<close>, and \<open>155.64617199999998\<close> pounds give the
  weight \<open>70.6\<close>.
\<close>

lemma form_stores_underflow_height:
  "ft_in_to_cm (Fin 0) (fl (1 / 10 ^ 163)) = fl (2.54 / 10 ^ 163)"
  by (simp add: ft_in_to_cm_def inches_to_cm_def op_eval fl_eval)

lemma form_stores_70_6:
  "lbs_to_kg (fl 155.64617199999998) = Inr (fl 70.6)"
  by (simp add: lbs_to_kg_def op_eval fl_eval)

section \<open>The properties\<close>

text \<open>
  C1. With the goal \<open>lose\<close> the target is stated to be
  \<open>max(round(TDEE - 500), round(BMR))\<close> and never below the \<open>bmr\<close> field of the same
  result. The code takes the maximum with \<open>int(bmr)\<close> instead. For a sedentary man of
  170 cm, 70 kg and 30 years the BMR is 1617.5 and the TDEE 1941: the result has
  \<open>bmr = 1618\<close> and \<open>target_calories = 1617\<close>, one below the \<open>bmr\<close> field and below
  the BMR itself.
\<close>

theorem lose_target_below_returned_bmr:
  "calculate_metrics (Some sedentary_lose_profile) =
     Inr \<lparr>bmi = Some (fl 24.2), bmr = Some 1618, tdee = Some 1941, target_calories = Some 1617\<rparr>"
  by (rule eval_sedentary_lose_profile)

text \<open>
  C2, as amended. When the profile is absent, or one of height, weight, age and sex is
  missing or zero (empty, for the sex), the result is returned, no error is raised, and
  all four of its fields are \<open>None\<close>.
\<close>

theorem insufficient_profile_gives_unknown:
  "profile = None
    \<or> (\<exists>p. profile = Some p
          \<and> (height_in p = None \<or> height_in p = Some (Fin 0)
             \<or> weight_lb p = None \<or> weight_lb p = Some (Fin 0)
             \<or> age p = None \<or> age p = Some 0
             \<or> sex p = None \<or> sex p = Some [])) \<Longrightarrow>
    calculate_metrics profile =
      Inr \<lparr>bmi = None, bmr = None, tdee = None, target_calories = None\<rparr>"
proof (erule disjE)
  assume "profile = None"
  then show ?thesis by (simp add: calculate_metrics_def)
next
  assume "\<exists>p. profile = Some p
          \<and> (height_in p = None \<or> height_in p = Some (Fin 0)
             \<or> weight_lb p = None \<or> weight_lb p = Some (Fin 0)
             \<or> age p = None \<or> age p = Some 0
             \<or> sex p = None \<or> sex p = Some [])"
  then obtain p where p: "profile = Some p" and
    bad: "height_in p = None \<or> height_in p = Some (Fin 0)
             \<or> weight_lb p = None \<or> weight_lb p = Some (Fin 0)
             \<or> age p = None \<or> age p = Some 0
             \<or> sex p = None \<or> sex p = Some []"
    by blast
  from bad have "\<not> all_present p"
    unfolding all_present_iff by auto
  with p show ?thesis by (simp add: not_all_present_unknown)
qed

theorem insufficient_profile_gives_unknown_witness:
  "weight_lb zero_weight_profile = Some (Fin 0)
   \<and> calculate_metrics (Some zero_weight_profile) =
       Inr \<lparr>bmi = None, bmr = None, tdee = None, target_calories = None\<rparr>"
  using insufficient_profile_gives_unknown [of "Some zero_weight_profile"]
  by (simp add: zero_weight_profile_def)

text \<open>
  C2, as stated, also has no error raised for any input. A height of \<open>2.54e-163\<close> cm is
  not zero, so the profile is complete; the square of the height in metres underflows to
  \<open>0.0\<close> and the division raises \<open>ZeroDivisionError\<close>.
\<close>

theorem underflowing_height_raises_counterexample:
  "all_present underflow_profile
   \<and> calculate_metrics (Some underflow_profile) = Inl ZeroDivisionError"
  by (simp add: eval_underflow_profile)
    (simp add: underflow_profile_def all_present_def truthy_float_def truthy_int_def
      truthy_str_def fl_eval)

text \<open>
  C3, as amended. For the profile with height 170 cm, weight 70 kg, age 30, sex M,
  activity \<open>moderately_active\<close> and goal \<open>maintain\<close>, the BMR is
  \<open>10 * 70 + 6.25 * 170 - 5 * 30 + 5 = 1617.5\<close>, so the result has \<open>bmr = 1618\<close>,
  \<open>tdee = round(1617.5 * 1.55) = 2507\<close>, and a target equal to the \<open>tdee\<close> field.
\<close>

theorem example_profile_metrics:
  "calculate_metrics (Some example_profile) =
     Inr \<lparr>bmi = Some (fl 24.2), bmr = Some 1618, tdee = Some 2507, target_calories = Some 2507\<rparr>"
  by (rule eval_example_profile)

text \<open>
  C3, as stated, gives \<open>bmr = 1674\<close> and \<open>tdee = 2595\<close> for that profile; the result
  has neither.
\<close>

theorem example_profile_bmr_counterexample:
  "bmr (projr (calculate_metrics (Some example_profile))) \<noteq> Some 1674
   \<and> tdee (projr (calculate_metrics (Some example_profile))) \<noteq> Some 2595"
  by (simp add: eval_example_profile)

text \<open>
  C4. For every complete profile (height, weight, age and sex present and non-zero), the
  \<open>bmr\<close> field of the result that is returned is
  \<open>10 * weight + 6.25 * height - 5 * age + (5 if male else -161)\<close>, computed with the
  operations of the program's doubles, rounded to the nearest integer: it is \<open>round\<close> of
  that value (a tie goes to the even neighbour) and differs from it by at most one half.
  The sex is male when it is \<open>M\<close> or \<open>m\<close>. At 70.6 kg, 170 cm and 30 years the value
  is 1623.5 and the field 1624.
\<close>

theorem bmr_is_rounded_mifflin_st_jeor:
  assumes "calculate_metrics (Some p) = Inr m"
    and "height_in p = Some h" "weight_lb p = Some w" "age p = Some a" "sex p = Some s"
    and "h \<noteq> Fin 0" "w \<noteq> Fin 0" "a \<noteq> 0" "s \<noteq> []"
  shows "\<exists>B. mifflin_st_jeor_spec w h a (s = ''M'' \<or> s = ''m'') = Inr (Fin B)
           \<and> bmr m = Some (round_half_even B)
           \<and> \<bar>of_int (round_half_even B) - B\<bar> \<le> 1 / 2"
  using calculate_metrics_returns [OF assms] round_half_even_nearest by fastforce

theorem bmr_is_rounded_mifflin_st_jeor_witness:
  "mifflin_st_jeor_spec (fl 70.6) (Fin 170) 30 True = Inr (Fin 1623.5)
   \<and> round_half_even 1623.5 = 1624
   \<and> (\<exists>m. calculate_metrics (Some heavier_profile) = Inr m \<and> bmr m = Some 1624)"
proof -
  have spec: "mifflin_st_jeor_spec (fl 70.6) (Fin 170) 30 True = Inr (Fin 1623.5)"
    by (simp add: mifflin_st_jeor_spec_def op_eval fl_eval)
  have "\<exists>B. mifflin_st_jeor_spec (fl 70.6) (Fin 170) 30 (''m'' = ''M'' \<or> ''m'' = ''m'') = Inr (Fin B)
           \<and> bmr \<lparr>bmi = Some (fl 24.4), bmr = Some 1624, tdee = Some 2801,
                   target_calories = Some 2801\<rparr> = Some (round_half_even B)
           \<and> \<bar>of_int (round_half_even B) - B\<bar> \<le> 1 / 2"
    by (rule bmr_is_rounded_mifflin_st_jeor
          [where h = "Fin 170" and w = "fl 70.6" and a = 30 and s = "''m''",
            OF eval_heavier_profile])
      (simp_all add: heavier_profile_def fl_eval)
  with spec eval_heavier_profile show ?thesis by (auto simp: round_half_even_def)
qed



text \<open>
  C6. For every complete profile, the \<open>tdee\<close> field of the result that is returned is the
  BMR times the multiplier of the activity, rounded; the multiplier is the one the
  five-entry table gives, and 1.55 for an activity that is absent or not a key of the
  table.
\<close>

theorem tdee_uses_activity_table:
  assumes "calculate_metrics (Some p) = Inr m"
    and "height_in p = Some h" "weight_lb p = Some w" "age p = Some a" "sex p = Some s"
    and "h \<noteq> Fin 0" "w \<noteq> Fin 0" "a \<noteq> 0" "s \<noteq> []"
  shows "\<exists>B T. mifflin_st_jeor_spec w h a (s = ''M'' \<or> s = ''m'') = Inr (Fin B)
           \<and> fmul (Fin B) (fl (activity_multiplier_spec (activity p))) = Fin T
           \<and> tdee m = Some (round_half_even T)"
  using calculate_metrics_returns [OF assms] by fastforce

theorem tdee_uses_activity_table_witness:
  "activity_multiplier_spec (Some ''couch_potato'') = 1.55
   \<and> mifflin_st_jeor_spec (fl 70.6) (Fin 192) 25 False = Inr (Fin 1620)
   \<and> fmul (Fin 1620) (fl 1.55) = Fin 2511
   \<and> (\<exists>m. calculate_metrics (Some couch_potato_profile) = Inr m \<and> tdee m = Some 2511)"
proof -
  have 1: "activity_multiplier_spec (Some ''couch_potato'') = 1.55"
    by (simp add: activity_multiplier_spec_def)
  have 2: "mifflin_st_jeor_spec (fl 70.6) (Fin 192) 25 False = Inr (Fin 1620)"
    by (simp add: mifflin_st_jeor_spec_def op_eval fl_eval)
  have 3: "fmul (Fin 1620) (fl 1.55) = Fin 2511"
    by (simp add: op_eval fl_eval)
  have "\<exists>B T. mifflin_st_jeor_spec (fl 70.6) (Fin 192) 25 (''F'' = ''M'' \<or> ''F'' = ''m'')
              = Inr (Fin B)
           \<and> fmul (Fin B) (fl (activity_multiplier_spec (activity couch_potato_profile))) = Fin T
           \<and> tdee \<lparr>bmi = Some (fl 19.2), bmr = Some 1620, tdee = Some 2511,
                    target_calories = Some 2511\<rparr> = Some (round_half_even T)"
    by (rule tdee_uses_activity_table
          [where h = "Fin 192" and w = "fl 70.6" and a = 25 and s = "''F''",
            OF eval_couch_potato_profile])
      (simp_all add: couch_potato_profile_def fl_eval)
  with 1 2 3 eval_couch_potato_profile show ?thesis by simp
qed

text \<open>
  C7. For every present profile: with the goal \<open>lose\<close> the result is the cardio and
  strength entries of the catalog, in order, each with ten minutes more and the interval
  note attached, followed by the one post-meal-walk habit; with any other goal it is
  the whole catalog followed by the one strength entry. The catalog has six entries,
  five of them cardio or strength, so the second result has seven.
\<close>

theorem exercise_recommendations_by_goal:
  "exercise_recommendations (Some p) =
     Inr (if str_lower (or_str (goal p) ''maintain'') = ''lose''
          then map lose_entry_spec (filter cardio_or_strength_spec base) @ [walk_after_meals]
          else base @ [full_body_strength])
   \<and> length base = 6
   \<and> length (filter cardio_or_strength_spec base) = 5
   \<and> length (base @ [full_body_strength]) = 7
   \<and> map_of walk_after_meals ''type'' = Some (PStr ''habit'')
   \<and> map_of full_body_strength ''type'' = Some (PStr ''strength'')"
proof -
  have "exercise_recommendations (Some p) =
     Inr (if str_lower (or_str (goal p) ''maintain'') = ''lose''
          then map lose_entry_spec (filter cardio_or_strength_spec base) @ [walk_after_meals]
          else base @ [full_body_strength])"
    by (simp add: exercise_recommendations_def lose_loop_base)
  moreover have "length base = 6"
    by (simp add: base_def)
  moreover have "length (filter cardio_or_strength_spec base) = 5"
    by (simp add: base_def cardio_or_strength_spec_def)
  moreover have "map_of walk_after_meals ''type'' = Some (PStr ''habit'')"
    by (simp add: walk_after_meals_def)
  moreover have "map_of full_body_strength ''type'' = Some (PStr ''strength'')"
    by (simp add: full_body_strength_def)
  ultimately show ?thesis by simp
qed

theorem exercise_recommendations_by_goal_witness:
  "exercise_recommendations (Some sedentary_lose_profile) =
     Inr [[(''name'', PStr ''Brisk Walking''), (''intensity'', PStr ''Moderate''),
           (''duration_min'', PInt 40), (''type'', PStr ''cardio''),
           (''note'', PStr interval_note)],
          [(''name'', PStr ''Jogging''), (''intensity'', PStr ''Heavy''),
           (''duration_min'', PInt 30), (''type'', PStr ''cardio''),
           (''note'', PStr interval_note)],
          [(''name'', PStr ''Cycling (leisure)''), (''intensity'', PStr ''Low''),
           (''duration_min'', PInt 40), (''type'', PStr ''cardio''),
           (''note'', PStr interval_note)],
          [(''name'', PStr ''Bodyweight Circuit''), (''intensity'', PStr ''Moderate''),
           (''duration_min'', PInt 35), (''type'', PStr ''strength''),
           (''note'', PStr interval_note)],
          [(''name'', PStr ''Swimming (moderate)''), (''intensity'', PStr ''Moderate''),
           (''duration_min'', PInt 35), (''type'', PStr ''cardio''),
           (''note'', PStr interval_note)],
          walk_after_meals]"
  using exercise_recommendations_by_goal [of sedentary_lose_profile]
  by (simp add: sedentary_lose_profile_def or_str_def str_lower_def lower_char_def base_def
        lose_entry_spec_def ten_minutes_more_spec_def cardio_or_strength_spec_def)

text \<open>
  C8, as amended. For every value \<open>v\<close> from \<open>2 ^ -1020\<close> to \<open>2 ^ 1021\<close>, converting
  pounds to kilograms and back, and inches to centimetres and back, raises no error and
  yields \<open>v\<close> within a relative tolerance of \<open>1e-6\<close>.
\<close>

theorem unit_round_trips_in_normal_range:
  assumes "pow2 (- 1020) \<le> v" "v \<le> pow2 1021"
  shows "\<exists>a b c d. lbs_to_kg (Fin v) = Inr (Fin a) \<and> kg_to_lbs (Fin a) = Fin b
           \<and> \<bar>b - v\<bar> \<le> v / 10 ^ 6
           \<and> inches_to_cm (Fin v) = Fin c \<and> cm_to_in (Fin c) = Inr (Fin d)
           \<and> \<bar>d - v\<bar> \<le> v / 10 ^ 6"
proof -
  from div_mul_round_trip [OF _ _ assms, of "4964362905246771 / 2251799813685248"]
  obtain a b where ab: "fl (v / (4964362905246771 / 2251799813685248)) = Fin a"
    "fl (a * (4964362905246771 / 2251799813685248)) = Fin b" "\<bar>b - v\<bar> \<le> v / 10 ^ 6"
    by auto
  from mul_div_round_trip [OF _ _ assms, of "2859785763380265 / 1125899906842624"]
  obtain c d where cd: "fl (v * (2859785763380265 / 1125899906842624)) = Fin c" "c \<noteq> 0"
    "fl (c / (2859785763380265 / 1125899906842624)) = Fin d" "\<bar>d - v\<bar> \<le> v / 10 ^ 6"
    by auto
  have "lbs_to_kg (Fin v) = Inr (Fin a)"
    using ab(1) unfolding lbs_to_kg_def fl_2_20462 by (simp add: py_truediv_def fdiv_def)
  moreover have "kg_to_lbs (Fin a) = Fin b"
    using ab(2) unfolding kg_to_lbs_def fl_2_20462 by (simp add: fmul_def)
  moreover have "inches_to_cm (Fin v) = Fin c"
    using cd(1) unfolding inches_to_cm_def fl_2_54 by (simp add: fmul_def)
  moreover have "cm_to_in (Fin c) = Inr (Fin d)"
    using cd(3) unfolding cm_to_in_def fl_2_54 by (simp add: py_truediv_def fdiv_def)
  ultimately show ?thesis using ab(3) cd(4) by blast
qed

theorem unit_round_trips_in_normal_range_witness:
  "lbs_to_kg (Fin 155) = Inr (Fin (4947408327756221 / 70368744177664))
   \<and> kg_to_lbs (Fin (4947408327756221 / 70368744177664)) = Fin (5453577673768959 / 35184372088832)
   \<and> inches_to_cm (Fin 67) = Fin (2993838221038715 / 17592186044416)
   \<and> cm_to_in (Fin (2993838221038715 / 17592186044416)) = Inr (Fin 67)
   \<and> (\<exists>a b c d. lbs_to_kg (Fin 155) = Inr (Fin a) \<and> kg_to_lbs (Fin a) = Fin b
           \<and> \<bar>b - 155\<bar> \<le> 155 / 10 ^ 6
           \<and> inches_to_cm (Fin 155) = Fin c \<and> cm_to_in (Fin c) = Inr (Fin d)
           \<and> \<bar>d - 155\<bar> \<le> 155 / 10 ^ 6)"
proof -
  have "pow2 (- 1020) \<le> 155" "155 \<le> pow2 1021"
    by (simp_all add: pow2_def)
  note unit_round_trips_in_normal_range [OF this]
  moreover have "lbs_to_kg (Fin 155) = Inr (Fin (4947408327756221 / 70368744177664))"
    by (simp add: lbs_to_kg_def op_eval fl_eval)
  moreover have "kg_to_lbs (Fin (4947408327756221 / 70368744177664))
      = Fin (5453577673768959 / 35184372088832)"
    by (simp add: kg_to_lbs_def op_eval fl_eval)
  moreover have "inches_to_cm (Fin 67) = Fin (2993838221038715 / 17592186044416)"
    by (simp add: inches_to_cm_def op_eval fl_eval)
  moreover have "cm_to_in (Fin (2993838221038715 / 17592186044416)) = Inr (Fin 67)"
    by (simp add: cm_to_in_def op_eval fl_eval)
  ultimately show ?thesis by blast
qed

text \<open>
  C8, as stated, is about every positive value. The smallest positive double,
  \<open>2 ^ -1074\<close>, converted to kilograms is \<open>0.0\<close>, and \<open>0.0\<close> converted back is \<open>0.0\<close>.
\<close>

theorem smallest_double_round_trip_counterexample:
  "fl (1 / 2 ^ 1074) = Fin (1 / 2 ^ 1074)
   \<and> lbs_to_kg (Fin (1 / 2 ^ 1074)) = Inr (Fin 0)
   \<and> kg_to_lbs (Fin 0) = Fin 0
   \<and> \<not> \<bar>0 - 1 / 2 ^ 1074\<bar> \<le> (1 / 2 ^ 1074 :: real) / 10 ^ 6"
  by (simp add: lbs_to_kg_def kg_to_lbs_def op_eval fl_eval)

text \<open>
  C9. For every complete profile, the \<open>tdee\<close> field of the result that is returned is
  the BMR as it was computed, not rounded to an integer, times the multiplier, rounded
  once; and when the goal is \<open>lose\<close> the target is the larger of \<open>round(tdee - 500)\<close>
  and \<open>int(bmr)\<close>, that same BMR truncated towards zero. At the profile of the instance
  below the BMR is 1617.5: the \<open>tdee\<close> field is 1941, where rounding the BMR first
  would give 1942, and the target is 1617, where the rounded BMR is 1618.
\<close>

theorem tdee_rounded_once_guardrail_truncates:
  assumes "calculate_metrics (Some p) = Inr m"
    and "height_in p = Some h" "weight_lb p = Some w" "age p = Some a" "sex p = Some s"
    and "h \<noteq> Fin 0" "w \<noteq> Fin 0" "a \<noteq> 0" "s \<noteq> []"
  shows "\<exists>B T. mifflin_st_jeor_spec w h a (s = ''M'' \<or> s = ''m'') = Inr (Fin B)
           \<and> bmr m = Some (round_half_even B)
           \<and> fmul (Fin B) (fl (activity_multiplier_spec (activity p))) = Fin T
           \<and> tdee m = Some (round_half_even T)
           \<and> (str_lower (or_str (goal p) ''maintain'') = ''lose'' \<longrightarrow>
                (\<exists>D. fsub (Fin T) (Fin 500) = Fin D
                   \<and> target_calories m
                       = Some (max (round_half_even D) (trunc_towards_zero B))))"
  using calculate_metrics_returns [OF assms] by (fastforce split: if_splits)

theorem tdee_rounded_once_guardrail_truncates_witness:
  "mifflin_st_jeor_spec (Fin 70) (Fin 170) 30 True = Inr (Fin 1617.5)
   \<and> fmul (Fin 1617.5) (fl 1.2) = Fin 1941
   \<and> fsub (Fin 1941) (Fin 500) = Fin 1441
   \<and> trunc_towards_zero 1617.5 = 1617
   \<and> round_half_even 1617.5 = 1618
   \<and> py_round (fmul (Fin 1618) (fl 1.2)) = Inr 1942
   \<and> (\<exists>m. calculate_metrics (Some sedentary_lose_profile) = Inr m
          \<and> bmr m = Some 1618 \<and> tdee m = Some 1941 \<and> target_calories m = Some 1617)"
proof -
  have 1: "mifflin_st_jeor_spec (Fin 70) (Fin 170) 30 True = Inr (Fin 1617.5)"
    by (simp add: mifflin_st_jeor_spec_def op_eval fl_eval)
  have 2: "fmul (Fin 1617.5) (fl 1.2) = Fin 1941"
    by (simp add: op_eval fl_eval)
  have 3: "fsub (Fin 1941) (Fin 500) = Fin 1441"
    by (simp add: op_eval fl_eval)
  have 4: "trunc_towards_zero 1617.5 = 1617" "round_half_even 1617.5 = 1618"
    by (simp_all add: trunc_towards_zero_def round_half_even_def)
  have 5: "py_round (fmul (Fin 1618) (fl 1.2)) = Inr 1942"
    by (simp add: op_eval fl_eval)
  have "\<exists>B T. mifflin_st_jeor_spec (Fin 70) (Fin 170) 30 (''M'' = ''M'' \<or> ''M'' = ''m'')
              = Inr (Fin B)
           \<and> bmr \<lparr>bmi = Some (fl 24.2), bmr = Some 1618, tdee = Some 1941,
                   target_calories = Some 1617\<rparr> = Some (round_half_even B)
           \<and> fmul (Fin B) (fl (activity_multiplier_spec (activity sedentary_lose_profile)))
               = Fin T
           \<and> tdee \<lparr>bmi = Some (fl 24.2), bmr = Some 1618, tdee = Some 1941,
                    target_calories = Some 1617\<rparr> = Some (round_half_even T)
           \<and> (str_lower (or_str (goal sedentary_lose_profile) ''maintain'') = ''lose'' \<longrightarrow>
                (\<exists>D. fsub (Fin T) (Fin 500) = Fin D
                   \<and> target_calories \<lparr>bmi = Some (fl 24.2), bmr = Some 1618,
                         tdee = Some 1941, target_calories = Some 1617\<rparr>
                       = Some (max (round_half_even D) (trunc_towards_zero B))))"
    by (rule tdee_rounded_once_guardrail_truncates
          [where h = "Fin 170" and w = "Fin 70" and a = 30 and s = "''M''",
            OF eval_sedentary_lose_profile])
      (simp_all add: sedentary_lose_profile_def)
  with 1 2 3 4 5 eval_sedentary_lose_profile show ?thesis by simp
qed

text \<open>
  C10. Whatever the input, a result that is returned has either all four of its fields
  \<open>None\<close> or none of them.
\<close>

theorem metrics_all_or_nothing:
  assumes "calculate_metrics profile = Inr m"
  shows "(bmi m = None \<and> bmr m = None \<and> tdee m = None \<and> target_calories m = None)
         \<or> (bmi m \<noteq> None \<and> bmr m \<noteq> None \<and> tdee m \<noteq> None \<and> target_calories m \<noteq> None)"
proof (cases profile)
  case None
  with assms show ?thesis by (auto simp: calculate_metrics_def)
next
  case (Some p)
  show ?thesis
  proof (cases "all_present p")
    case True
    then obtain h w a s where "height_in p = Some h" "weight_lb p = Some w" "age p = Some a"
      "sex p = Some s" "h \<noteq> Fin 0" "w \<noteq> Fin 0" "a \<noteq> 0" "s \<noteq> []"
      unfolding all_present_iff by blast
    from calculate_metrics_returns [OF assms [unfolded Some] this] show ?thesis by auto
  next
    case False
    with Some assms show ?thesis by (auto simp: not_all_present_unknown)
  qed
qed

theorem metrics_all_or_nothing_witness:
  "calculate_metrics (Some lightly_active_profile) =
     Inr \<lparr>bmi = Some (fl 19.2), bmr = Some 1620, tdee = Some 2228, target_calories = Some 1728\<rparr>
   \<and> (\<exists>m. calculate_metrics (Some lightly_active_profile) = Inr m
          \<and> bmi m \<noteq> None \<and> bmr m \<noteq> None \<and> tdee m \<noteq> None \<and> target_calories m \<noteq> None)"
  using metrics_all_or_nothing [OF eval_lightly_active_profile] eval_lightly_active_profile
  by simp

end
